theory Spec2Isabelle
  imports Main "HOL-Library.AList"
begin

section \<open>Python values, exceptions and the object store\<close>

text \<open>
  The query builder of \<^verbatim>\<open>googleanalytics/query.py\<close> keeps its parameters in
  dictionaries and lists, which Python shares by reference. The store below holds
  every dictionary and list object at an address; a value is \<^verbatim>\<open>None\<close>, an
  integer, a string or a reference to an object of the store.
\<close>

datatype pyval = NoneV | IntV int | StrV string | RefV nat

datatype error =
    ValueError string
  | IndexError string
  | NameError string
  | AttributeError string
  | TypeError string
  | KeyError string
  | NotImplementedError
  | TransportError string

datatype obj = DictObj "(string \<times> pyval) list" | ListObj "pyval list"

type_synonym heap = "obj list"

type_synonym ('a, 's) st = "'s \<Rightarrow> (error + 'a) \<times> 's"

definition ret :: "'a \<Rightarrow> ('a, 's) st" where
  "ret x s = (Inr x, s)"

definition raise :: "error \<Rightarrow> ('a, 's) st" where
  "raise e s = (Inl e, s)"

definition bnd :: "('a, 's) st \<Rightarrow> ('a \<Rightarrow> ('b, 's) st) \<Rightarrow> ('b, 's) st" where
  "bnd m f s = (case m s of (Inl e, s') \<Rightarrow> (Inl e, s') | (Inr x, s') \<Rightarrow> f x s')"

definition liftE :: "error + 'a \<Rightarrow> ('a, 's) st" where
  "liftE r s = (r, s)"

definition dict_at :: "heap \<Rightarrow> nat \<Rightarrow> (string \<times> pyval) list option" where
  "dict_at h a =
     (if a < length h then (case h ! a of DictObj d \<Rightarrow> Some d | ListObj xs \<Rightarrow> None)
      else None)"

definition list_at :: "heap \<Rightarrow> nat \<Rightarrow> pyval list option" where
  "list_at h a =
     (if a < length h then (case h ! a of ListObj xs \<Rightarrow> Some xs | DictObj d \<Rightarrow> None)
      else None)"

text \<open>A new object takes the next free address.\<close>

definition new_obj :: "obj \<Rightarrow> (nat, heap) st" where
  "new_obj ob h = (Inr (length h), h @ [ob])"

text \<open>Reading the contents of a dictionary object (\<^verbatim>\<open>copy(d)\<close>, \<^verbatim>\<open>**d\<close>).\<close>

definition get_dict :: "nat \<Rightarrow> ((string \<times> pyval) list, heap) st" where
  "get_dict a h =
     (case dict_at h a of
        Some d \<Rightarrow> (Inr d, h)
      | None \<Rightarrow> (Inl (TypeError ''not a dict''), h))"

text \<open>\<^verbatim>\<open>d[k] = v\<close>\<close>

definition dict_setitem :: "nat \<Rightarrow> string \<Rightarrow> pyval \<Rightarrow> (unit, heap) st" where
  "dict_setitem a k v h =
     (case dict_at h a of
        Some d \<Rightarrow> (Inr (), h[a := DictObj (AList.update k v d)])
      | None \<Rightarrow> (Inl (TypeError ''not a dict''), h))"

text \<open>\<^verbatim>\<open>d[k]\<close>\<close>

definition dict_getitem :: "nat \<Rightarrow> string \<Rightarrow> (pyval, heap) st" where
  "dict_getitem a k =
     bnd (get_dict a) (\<lambda>d.
       case map_of d k of Some v \<Rightarrow> ret v | None \<Rightarrow> raise (KeyError k))"

text \<open>\<^verbatim>\<open>d.get(k, default)\<close>\<close>

definition dict_get :: "nat \<Rightarrow> string \<Rightarrow> pyval \<Rightarrow> (pyval, heap) st" where
  "dict_get a k dflt =
     bnd (get_dict a) (\<lambda>d.
       case map_of d k of Some v \<Rightarrow> ret v | None \<Rightarrow> ret dflt)"

text \<open>\<^verbatim>\<open>d.update(e)\<close>: one \<^verbatim>\<open>d[k] = v\<close> for each item of \<^verbatim>\<open>e\<close>, in order.\<close>

fun dict_update :: "nat \<Rightarrow> (string \<times> pyval) list \<Rightarrow> (unit, heap) st" where
  "dict_update a [] = ret ()"
| "dict_update a ((k, v) # kvs) = bnd (dict_setitem a k v) (\<lambda>_. dict_update a kvs)"

text \<open>
  \<^verbatim>\<open>d.setdefault(k, [])\<close>: the argument \<^verbatim>\<open>[]\<close> is a new list object, built
  before the call; the call stores it only when the key is absent, and returns the value
  under the key.
\<close>

definition dict_setdefault_list :: "nat \<Rightarrow> string \<Rightarrow> (pyval, heap) st" where
  "dict_setdefault_list a k =
     bnd (new_obj (ListObj [])) (\<lambda>fresh.
     bnd (get_dict a) (\<lambda>d.
       case map_of d k of
         Some v \<Rightarrow> ret v
       | None \<Rightarrow> bnd (dict_setitem a k (RefV fresh)) (\<lambda>_. ret (RefV fresh))))"

text \<open>\<^verbatim>\<open>v.extend(xs)\<close> and \<^verbatim>\<open>v.insert(0, x)\<close>: only a list has these methods.\<close>

definition list_extend :: "pyval \<Rightarrow> pyval list \<Rightarrow> (unit, heap) st" where
  "list_extend v xs h =
     (case v of
        RefV a \<Rightarrow>
          (case list_at h a of
             Some ys \<Rightarrow> (Inr (), h[a := ListObj (ys @ xs)])
           | None \<Rightarrow> (Inl (AttributeError ''extend''), h))
      | _ \<Rightarrow> (Inl (AttributeError ''extend''), h))"

definition list_insert0 :: "pyval \<Rightarrow> pyval \<Rightarrow> (unit, heap) st" where
  "list_insert0 v x h =
     (case v of
        RefV a \<Rightarrow>
          (case list_at h a of
             Some ys \<Rightarrow> (Inr (), h[a := ListObj (x # ys)])
           | None \<Rightarrow> (Inl (AttributeError ''insert''), h))
      | _ \<Rightarrow> (Inl (AttributeError ''insert''), h))"

text \<open>Truth value of a Python value (\<^verbatim>\<open>if v:\<close>); a list is true when non-empty.\<close>

definition truthy :: "heap \<Rightarrow> pyval \<Rightarrow> bool" where
  "truthy h v =
     (case v of
        NoneV \<Rightarrow> False
      | IntV i \<Rightarrow> i \<noteq> 0
      | StrV s \<Rightarrow> s \<noteq> []
      | RefV a \<Rightarrow>
          (case dict_at h a of
             Some d \<Rightarrow> d \<noteq> []
           | None \<Rightarrow> (case list_at h a of Some xs \<Rightarrow> xs \<noteq> [] | None \<Rightarrow> True)))"

text \<open>\<^verbatim>\<open>t[i]\<close> on a tuple: a negative index counts from the end.\<close>

definition tuple_index :: "'a list \<Rightarrow> int \<Rightarrow> error + 'a" where
  "tuple_index xs i =
     (if 0 \<le> i \<and> i < int (length xs) then Inr (xs ! nat i)
      else if i < 0 \<and> - int (length xs) \<le> i then Inr (xs ! nat (int (length xs) + i))
      else Inl (IndexError ''tuple index out of range''))"

text \<open>\<^verbatim>\<open>t.index(x)\<close>: position of the first equal element.\<close>

fun index_opt :: "'a list \<Rightarrow> 'a \<Rightarrow> nat option" where
  "index_opt [] x = None"
| "index_opt (y # ys) x = (if y = x then Some 0 else map_option Suc (index_opt ys x))"

text \<open>\<^verbatim>\<open>sep.join(xs)\<close>\<close>

fun join :: "string \<Rightarrow> string list \<Rightarrow> string" where
  "join sep [] = []"
| "join sep [x] = x"
| "join sep (x # y # ys) = x @ sep @ join sep (y # ys)"

section \<open>Columns, profiles, pages\<close>

text \<open>
  Modelled from the spec: the class \<^verbatim>\<open>account.Column\<close> and the account's column
  catalog are not part of \<^verbatim>\<open>query.py\<close>. A column is a named metric or dimension with
  a stable identifier string; the catalog is the ordered list of the account's columns.
\<close>

record column =
  col_name :: string
  col_id :: string

text \<open>
  A profile, with the path \<^verbatim>\<open>profile.webproperty.account\<close> flattened:
  \<^verbatim>\<open>profile.id\<close>, \<^verbatim>\<open>profile.name\<close> and \<^verbatim>\<open>account.columns\<close>.
\<close>

record profile =
  profile_id :: string
  profile_name :: string
  columns :: "column list"

text \<open>A column argument is a name or a column object; an argument is one or a list.\<close>

datatype colspec = ByName string | Handle column

datatype colarg = Single colspec | Several "colspec list"

text \<open>
  One response of the transport:
  \<^verbatim>\<open>{columnHeaders: [{name}], rows: [[...]], nextLink?: string}\<close>.
\<close>

record page =
  columnHeaders :: "string list"
  page_rows :: "string list list"
  nextLink :: "string option"

datatype query =
  Query (profile: profile) (raw: nat) (meta: nat) (report: "report option")
and report =
  Report (report_raw: page) (queries: "query list") (headers: "column list")
         (rows: "string list list") (is_complete: bool)

section \<open>Report\<close>

definition append_report :: "report \<Rightarrow> page \<Rightarrow> query \<Rightarrow> report" where
  "append_report r pg q =
     Report (report_raw r) (queries r @ [q]) (headers r) (rows r @ page_rows pg)
            (nextLink pg = None)"

text \<open>
  Modelled from the spec: \<^verbatim>\<open>addressable.filter\<close> is not part of \<^verbatim>\<open>query.py\<close>;
  it keeps the columns of the catalog that satisfy the predicate, in the catalog's order.
\<close>

definition addressable_filter :: "(column \<Rightarrow> bool) \<Rightarrow> column list \<Rightarrow> column list" where
  "addressable_filter P cols = filter P cols"

definition Report_init :: "page \<Rightarrow> query \<Rightarrow> report" where
  "Report_init pg q =
     (let all_columns = columns (profile q);
          header_ids = columnHeaders pg;
          hs = addressable_filter (\<lambda>col. List.member header_ids (col_id col)) all_columns
      in append_report (Report pg [] hs [] False) pg q)"

text \<open>
  Modelled from the spec: \<^verbatim>\<open>headers.index(key)\<close> belongs to the addressable list;
  it resolves the column name against the headers by identifier equality and raises
  \<^verbatim>\<open>ValueError\<close> when no header has it.
\<close>

fun headers_index :: "column list \<Rightarrow> string \<Rightarrow> nat option" where
  "headers_index [] key = None"
| "headers_index (c # cs) key =
     (if col_id c = key then Some 0 else map_option Suc (headers_index cs key))"

text \<open>\<^verbatim>\<open>[row[i] for row in rows]\<close>: a row shorter than \<^verbatim>\<open>i\<close> raises IndexError.\<close>

fun column_values :: "nat \<Rightarrow> string list list \<Rightarrow> error + string list" where
  "column_values i [] = Inr []"
| "column_values i (row # rest) =
     (if i < length row
      then (case column_values i rest of Inl e \<Rightarrow> Inl e | Inr vs \<Rightarrow> Inr (row ! i # vs))
      else Inl (IndexError ''list index out of range''))"

definition report_getitem :: "report \<Rightarrow> string \<Rightarrow> error + string list" where
  "report_getitem r key =
     (case headers_index (headers r) key of
        Some i \<Rightarrow>
          (case column_values i (rows r) of
             Inl (ValueError m) \<Rightarrow> Inl (ValueError (key @ '' not in column headers''))
           | Inl e \<Rightarrow> Inl e
           | Inr vs \<Rightarrow> Inr vs)
      | None \<Rightarrow> Inl (ValueError (key @ '' not in column headers'')))"

definition report_iter :: "report \<Rightarrow> error + string list list" where
  "report_iter r = Inl NotImplementedError"

definition report_len :: "report \<Rightarrow> nat" where
  "report_len r = length (rows r)"

section \<open>Query: construction, cloning and column resolution\<close>

text \<open>
  Modelled from the spec: the catalog lookup \<^verbatim>\<open>account.columns[value]\<close> is not
  part of \<^verbatim>\<open>query.py\<close>; it resolves a name to the column of that name and fails
  with a lookup error when the catalog has none.
\<close>

definition catalog_lookup :: "column list \<Rightarrow> string \<Rightarrow> error + column" where
  "catalog_lookup cols name =
     (case find (\<lambda>c. col_name c = name) cols of
        Some c \<Rightarrow> Inr c
      | None \<Rightarrow> Inl (KeyError name))"

definition normalize_column :: "profile \<Rightarrow> colspec \<Rightarrow> error + column" where
  "normalize_column p v =
     (case v of Handle c \<Rightarrow> Inr c | ByName name \<Rightarrow> catalog_lookup (columns p) name)"

definition serialize_column :: "profile \<Rightarrow> colspec \<Rightarrow> error + string" where
  "serialize_column p v =
     (case normalize_column p v of Inl e \<Rightarrow> Inl e | Inr c \<Rightarrow> Inr (col_id c))"

fun serialize_each :: "profile \<Rightarrow> colspec list \<Rightarrow> error + string list" where
  "serialize_each p [] = Inr []"
| "serialize_each p (v # vs) =
     (case serialize_column p v of
        Inl e \<Rightarrow> Inl e
      | Inr i \<Rightarrow> (case serialize_each p vs of Inl e \<Rightarrow> Inl e | Inr is \<Rightarrow> Inr (i # is)))"

definition serialize_columns :: "profile \<Rightarrow> colarg \<Rightarrow> error + string list" where
  "serialize_columns p values =
     (case values of
        Single v \<Rightarrow> serialize_each p [v]
      | Several vs \<Rightarrow> serialize_each p vs)"

text \<open>\<^verbatim>\<open>Query._specify\<close>, on the object \<open>q\<close> itself.\<close>

definition specify_body :: "colarg \<Rightarrow> colarg \<Rightarrow> query \<Rightarrow> (unit, heap) st" where
  "specify_body metrics dimensions q =
     bnd (liftE (serialize_columns (profile q) metrics)) (\<lambda>ms.
     bnd (liftE (serialize_columns (profile q) dimensions)) (\<lambda>ds.
     bnd (dict_setdefault_list (raw q) ''metrics'') (\<lambda>lm.
     bnd (list_extend lm (map StrV ms)) (\<lambda>_.
     bnd (dict_setdefault_list (raw q) ''dimensions'') (\<lambda>ld.
     list_extend ld (map StrV ds))))))"

text \<open>
  \<^verbatim>\<open>Query.__init__\<close>: the argument \<open>meta_arg\<close> is the content of the dictionary
  passed as \<^verbatim>\<open>meta\<close>. A new object has no \<^verbatim>\<open>report\<close> attribute.
\<close>

definition Query_init ::
  "profile \<Rightarrow> colarg \<Rightarrow> colarg \<Rightarrow> (string \<times> pyval) list \<Rightarrow> (query, heap) st" where
  "Query_init p metrics dimensions meta_arg =
     bnd (new_obj (DictObj [(''ids'', StrV (''ga:'' @ profile_id p))])) (\<lambda>r.
     bnd (new_obj (DictObj [])) (\<lambda>m.
     bnd (dict_update m meta_arg) (\<lambda>_.
     bnd (specify_body metrics dimensions (Query p r m None)) (\<lambda>_.
     ret (Query p r m None)))))"

text \<open>
  \<^verbatim>\<open>Query.clone\<close>: a new object of the same class from \<^verbatim>\<open>profile\<close> and
  \<^verbatim>\<open>meta\<close>, whose \<^verbatim>\<open>raw\<close> is then replaced by \<^verbatim>\<open>copy(self.raw)\<close>: a new
  dictionary with the same values, so a list under a key is the same object in both.
\<close>

definition clone :: "query \<Rightarrow> (query, heap) st" where
  "clone q =
     bnd (get_dict (meta q)) (\<lambda>md.
     bnd (Query_init (profile q) (Several []) (Several []) md) (\<lambda>nq.
     bnd (get_dict (raw q)) (\<lambda>rd.
     bnd (new_obj (DictObj rd)) (\<lambda>r.
     ret (Query (profile nq) r (meta nq) (report nq))))))"

text \<open>
  Modelled from the spec: the decorator \<^verbatim>\<open>utils.immutable\<close> is not part of
  \<^verbatim>\<open>query.py\<close>; it clones the object, runs the wrapped method against the clone,
  and returns the clone.
\<close>

definition immutable :: "(query \<Rightarrow> ('a, heap) st) \<Rightarrow> query \<Rightarrow> (query, heap) st" where
  "immutable method q = bnd (clone q) (\<lambda>c. bnd (method c) (\<lambda>_. ret c))"

definition specify :: "colarg \<Rightarrow> colarg \<Rightarrow> query \<Rightarrow> (query, heap) st" where
  "specify metrics dimensions = immutable (specify_body metrics dimensions)"

definition sort_q :: "query \<Rightarrow> (query, heap) st" where
  "sort_q = immutable (\<lambda>c. ret ())"

definition filter_q :: "query \<Rightarrow> (query, heap) st" where
  "filter_q = immutable (\<lambda>c. ret ())"

section \<open>CoreQuery: the chain operations\<close>

definition PRECISION_LEVELS :: "string list" where
  "PRECISION_LEVELS = [''FASTER'', ''DEFAULT'', ''HIGH_PRECISION'']"

definition GRANULARITY_LEVELS :: "string list" where
  "GRANULARITY_LEVELS = [''year'', ''month'', ''week'', ''day'', ''hour'']"

definition GRANULARITY_DIMENSIONS :: "string list" where
  "GRANULARITY_DIMENSIONS =
     [''ga:year'', ''ga:yearMonth'', ''ga:yearWeek'', ''ga:date'', ''ga:dateHour'']"

text \<open>
  The function \<^verbatim>\<open>utils.daterange\<close> is not part of \<^verbatim>\<open>query.py\<close>; it is a
  parameter of the model: from start, stop, months and days it gives the pair of dates,
  or raises.
\<close>

type_synonym daterange = "pyval \<Rightarrow> pyval \<Rightarrow> pyval \<Rightarrow> pyval \<Rightarrow> error + pyval \<times> pyval"

text \<open>
  Lines 120 to 121: an integer precision is an index into \<^verbatim>\<open>PRECISION_LEVELS\<close>.
\<close>

definition precision_token :: "pyval \<Rightarrow> error + pyval" where
  "precision_token precision =
     (case precision of
        IntV i \<Rightarrow>
          (case tuple_index PRECISION_LEVELS i of Inl e \<Rightarrow> Inl e | Inr s \<Rightarrow> Inr (StrV s))
      | _ \<Rightarrow> Inr precision)"

text \<open>
  Lines 130 to 135: a granularity that is not an integer is looked up in
  \<^verbatim>\<open>GRANULARITY_LEVELS\<close>; the other branch reads the name \<^verbatim>\<open>options\<close>, which
  is bound nowhere, so it raises \<^verbatim>\<open>NameError\<close> before the \<^verbatim>\<open>ValueError\<close> of
  the next line is built.
\<close>

definition granularity_index :: "pyval \<Rightarrow> error + int" where
  "granularity_index granularity =
     (case granularity of
        IntV i \<Rightarrow> Inr i
      | _ \<Rightarrow>
          (case index_opt (map StrV GRANULARITY_LEVELS) granularity of
             Some i \<Rightarrow> Inr (int i)
           | None \<Rightarrow> Inl (NameError ''options'')))"

definition range_body ::
  "daterange \<Rightarrow> pyval \<Rightarrow> pyval \<Rightarrow> pyval \<Rightarrow> pyval \<Rightarrow> pyval \<Rightarrow> pyval \<Rightarrow> query
   \<Rightarrow> (unit, heap) st" where
  "range_body dr start stop months days precision granularity q =
     bnd (liftE (dr start stop months days)) (\<lambda>(start', stop').
     bnd (dict_update (raw q) [(''start_date'', start'), (''end_date'', stop')]) (\<lambda>_.
     bnd (liftE (precision_token precision)) (\<lambda>prec.
     if \<not> List.member (map StrV PRECISION_LEVELS) prec
     then raise (ValueError (''Granularity should be one of: '' @ join '', '' PRECISION_LEVELS))
     else
     bnd (dict_update (raw q) [(''samplingLevel'', prec)]) (\<lambda>_.
     (\<lambda>h.
       if truthy h granularity
       then
         bnd (liftE (granularity_index granularity)) (\<lambda>g.
         bnd (liftE (tuple_index GRANULARITY_DIMENSIONS g)) (\<lambda>dimension.
         bnd (dict_getitem (raw q) ''dimensions'') (\<lambda>dl.
         list_insert0 dl (StrV dimension)))) h
       else ret () h)))))"

definition range_q ::
  "daterange \<Rightarrow> pyval \<Rightarrow> pyval \<Rightarrow> pyval \<Rightarrow> pyval \<Rightarrow> pyval \<Rightarrow> pyval \<Rightarrow> query
   \<Rightarrow> (query, heap) st" where
  "range_q dr start stop months days precision granularity =
     immutable (range_body dr start stop months days precision granularity)"

definition step_body :: "pyval \<Rightarrow> query \<Rightarrow> (unit, heap) st" where
  "step_body maximum q = dict_setitem (raw q) ''max_results'' maximum"

definition step :: "pyval \<Rightarrow> query \<Rightarrow> (query, heap) st" where
  "step maximum = immutable (step_body maximum)"

text \<open>
  \<^verbatim>\<open>limit(*_range)\<close>: two arguments are start and maximum; otherwise the start is
  1 and the maximum is \<^verbatim>\<open>_range[0]\<close>.
\<close>

definition limit_args :: "pyval list \<Rightarrow> error + pyval \<times> pyval" where
  "limit_args rng =
     (case rng of
        [s, m] \<Rightarrow> Inr (s, m)
      | _ \<Rightarrow> (case tuple_index rng 0 of Inl e \<Rightarrow> Inl e | Inr m \<Rightarrow> Inr (IntV 1, m)))"

definition limit_body :: "pyval list \<Rightarrow> query \<Rightarrow> (unit, heap) st" where
  "limit_body rng q =
     bnd (liftE (limit_args rng)) (\<lambda>(start, maximum).
     bnd (dict_setitem (meta q) ''limit'' maximum) (\<lambda>_.
     dict_update (raw q) [(''start_index'', start), (''max_results'', maximum)]))"

definition limit :: "pyval list \<Rightarrow> query \<Rightarrow> (query, heap) st" where
  "limit rng = immutable (limit_body rng)"

text \<open>\<^verbatim>\<open>step + 1\<close>: defined on an integer, a \<^verbatim>\<open>TypeError\<close> otherwise.\<close>

definition plus_one :: "pyval \<Rightarrow> error + pyval" where
  "plus_one v =
     (case v of IntV n \<Rightarrow> Inr (IntV (n + 1)) | _ \<Rightarrow> Inl (TypeError ''unsupported operand''))"

definition next_body :: "pyval \<Rightarrow> query \<Rightarrow> (unit, heap) st" where
  "next_body start q =
     (\<lambda>h.
       if \<not> truthy h start
       then
         bnd (dict_get (raw q) ''max_results'' (IntV 1000)) (\<lambda>stp.
         bnd (liftE (plus_one stp)) (\<lambda>start'.
         dict_setitem (raw q) ''start_index'' start')) h
       else dict_setitem (raw q) ''start_index'' start h)"

definition next_q :: "pyval \<Rightarrow> query \<Rightarrow> (query, heap) st" where
  "next_q start = immutable (next_body start)"

text \<open>The wrappers \<^verbatim>\<open>hours\<close>, \<^verbatim>\<open>days\<close>, \<^verbatim>\<open>weeks\<close>, \<^verbatim>\<open>months\<close>, \<^verbatim>\<open>years\<close>.\<close>

definition hours :: "daterange \<Rightarrow> pyval \<Rightarrow> pyval \<Rightarrow> pyval \<Rightarrow> pyval \<Rightarrow> pyval \<Rightarrow> query
   \<Rightarrow> (query, heap) st" where
  "hours dr start stop mths dys precision =
     range_q dr start stop mths dys precision (StrV ''hour'')"

definition days :: "daterange \<Rightarrow> pyval \<Rightarrow> pyval \<Rightarrow> pyval \<Rightarrow> pyval \<Rightarrow> pyval \<Rightarrow> query
   \<Rightarrow> (query, heap) st" where
  "days dr start stop mths dys precision =
     range_q dr start stop mths dys precision (StrV ''day'')"

definition weeks :: "daterange \<Rightarrow> pyval \<Rightarrow> pyval \<Rightarrow> pyval \<Rightarrow> pyval \<Rightarrow> pyval \<Rightarrow> query
   \<Rightarrow> (query, heap) st" where
  "weeks dr start stop mths dys precision =
     range_q dr start stop mths dys precision (StrV ''week'')"

definition months :: "daterange \<Rightarrow> pyval \<Rightarrow> pyval \<Rightarrow> pyval \<Rightarrow> pyval \<Rightarrow> pyval \<Rightarrow> query
   \<Rightarrow> (query, heap) st" where
  "months dr start stop mths dys precision =
     range_q dr start stop mths dys precision (StrV ''month'')"

definition years :: "daterange \<Rightarrow> pyval \<Rightarrow> pyval \<Rightarrow> pyval \<Rightarrow> pyval \<Rightarrow> pyval \<Rightarrow> query
   \<Rightarrow> (query, heap) st" where
  "years dr start stop mths dys precision =
     range_q dr start stop mths dys precision (StrV ''year'')"

section \<open>CoreQuery: execution and pagination\<close>

text \<open>
  The service \<^verbatim>\<open>profile.webproperty.account.service\<close> is outside
  \<^verbatim>\<open>query.py\<close>; it is a parameter of the model: from its own state and the
  request parameters it gives a page or raises, and a new state.
\<close>

type_synonym 't transport = "'t \<Rightarrow> (string \<times> pyval) list \<Rightarrow> (error + page) \<times> 't"

text \<open>The world of an execution: the object store and the state of the service.\<close>

definition on_heap :: "('a, heap) st \<Rightarrow> ('a, heap \<times> 't) st" where
  "on_heap m w = (case m (fst w) of (r, h') \<Rightarrow> (r, (h', snd w)))"

definition call_service :: "'t transport \<Rightarrow> (string \<times> pyval) list \<Rightarrow> (page, heap \<times> 't) st" where
  "call_service svc req w = (case svc (snd w) req of (r, t') \<Rightarrow> (r, (fst w, t')))"

text \<open>
  \<^verbatim>\<open>','.join(v)\<close>: the items of a list must all be strings; a string is joined
  character by character.
\<close>

fun strings_of :: "pyval list \<Rightarrow> error + string list" where
  "strings_of [] = Inr []"
| "strings_of (StrV s # vs) =
     (case strings_of vs of Inl e \<Rightarrow> Inl e | Inr ss \<Rightarrow> Inr (s # ss))"
| "strings_of (v # vs) = Inl (TypeError ''sequence item: expected str'')"

definition join_val :: "pyval \<Rightarrow> (string, heap) st" where
  "join_val v h =
     (case v of
        RefV a \<Rightarrow>
          (case list_at h a of
             Some xs \<Rightarrow>
               (case strings_of xs of
                  Inl e \<Rightarrow> (Inl e, h)
                | Inr ss \<Rightarrow> (Inr (join '','' ss), h))
           | None \<Rightarrow>
               (case dict_at h a of
                  Some d \<Rightarrow> (Inr (join '','' (map fst d)), h)
                | None \<Rightarrow> (Inl (TypeError ''can only join an iterable''), h)))
      | StrV s \<Rightarrow> (Inr (join '','' (map (\<lambda>c. [c]) s)), h)
      | _ \<Rightarrow> (Inl (TypeError ''can only join an iterable''), h))"

text \<open>Lines 205 to 207: the request parameters, built in a copy of \<^verbatim>\<open>self.raw\<close>.\<close>

definition build_request :: "query \<Rightarrow> ((string \<times> pyval) list, heap) st" where
  "build_request q =
     bnd (get_dict (raw q)) (\<lambda>d.
     bnd (new_obj (DictObj d)) (\<lambda>c.
     bnd (dict_getitem (raw q) ''metrics'') (\<lambda>m.
     bnd (join_val m) (\<lambda>ms.
     bnd (dict_setitem c ''metrics'' (StrV ms)) (\<lambda>_.
     bnd (dict_getitem (raw q) ''dimensions'') (\<lambda>dm.
     bnd (join_val dm) (\<lambda>ds.
     bnd (dict_setitem c ''dimensions'' (StrV ds)) (\<lambda>_.
     get_dict c))))))))"

text \<open>
  \<^verbatim>\<open>self.meta.get('limit', float('inf'))\<close>: \<open>None\<close> stands for infinity. The
  value is only ever compared with an integer, which raises \<^verbatim>\<open>TypeError\<close> (as
  Python 3 does) for a limit that is not a number.
\<close>

definition meta_limit :: "query \<Rightarrow> (int option, heap) st" where
  "meta_limit q =
     bnd (get_dict (meta q)) (\<lambda>d.
       case map_of d ''limit'' of
         None \<Rightarrow> ret None
       | Some (IntV n) \<Rightarrow> ret (Some n)
       | Some _ \<Rightarrow> raise (TypeError ''unorderable types''))"

text \<open>Line 212: \<^verbatim>\<open>self.meta.get('limit', float('inf')) < 1000\<close>\<close>

definition limit_below_1000 :: "query \<Rightarrow> (bool, heap) st" where
  "limit_below_1000 q =
     bnd (meta_limit q) (\<lambda>l. ret (case l of None \<Rightarrow> False | Some n \<Rightarrow> n < 1000))"

text \<open>Line 218: \<^verbatim>\<open>len(report.rows) >= self.meta.get('limit', float('inf'))\<close>\<close>

definition rows_reach_limit :: "report \<Rightarrow> query \<Rightarrow> (bool, heap) st" where
  "rows_reach_limit rep q =
     bnd (meta_limit q) (\<lambda>l.
       ret (case l of None \<Rightarrow> False | Some n \<Rightarrow> n \<le> int (length (rows rep))))"

text \<open>
  \<^verbatim>\<open>CoreQuery.execute\<close> and its \<^verbatim>\<open>while\<close> loop. Both may run forever, so both
  take fuel: one unit for each call of \<^verbatim>\<open>execute\<close> and for each test of the loop
  condition; \<open>None\<close> is the run that needs more. (Python itself ends an unbounded
  recursion with a \<^verbatim>\<open>RuntimeError\<close> at the interpreter's recursion limit.)
\<close>

fun execute ::
  "'t transport \<Rightarrow> nat \<Rightarrow> query \<Rightarrow> heap \<times> 't \<Rightarrow> ((error + report) \<times> (heap \<times> 't)) option"
and paginate ::
  "'t transport \<Rightarrow> nat \<Rightarrow> query \<Rightarrow> report \<Rightarrow> bool \<Rightarrow> heap \<times> 't
   \<Rightarrow> ((error + report) \<times> (heap \<times> 't)) option"
where
  "execute svc 0 q w = None"
| "execute svc (Suc n) q w =
     (case on_heap (build_request q) w of
        (Inl e, w1) \<Rightarrow> Some (Inl e, w1)
      | (Inr req, w1) \<Rightarrow>
          (case call_service svc req w1 of
             (Inl e, w2) \<Rightarrow> Some (Inl e, w2)
           | (Inr response, w2) \<Rightarrow>
               (case on_heap (limit_below_1000 q) w2 of
                  (Inl e, w3) \<Rightarrow> Some (Inl e, w3)
                | (Inr is_enough, w3) \<Rightarrow>
                    paginate svc n q (Report_init response q) is_enough w3)))"
| "paginate svc 0 q rep is_enough w = None"
| "paginate svc (Suc n) q rep is_enough w =
     (if is_enough \<or> is_complete rep then Some (Inr rep, w)
      else
        (case on_heap (next_q NoneV q) w of
           (Inl e, w1) \<Rightarrow> Some (Inl e, w1)
         | (Inr next_query, w1) \<Rightarrow>
             (case execute svc n next_query w1 of
                None \<Rightarrow> None
              | Some (Inl e, w2) \<Rightarrow> Some (Inl e, w2)
              | Some (Inr next_report, w2) \<Rightarrow>
                  (case on_heap (rows_reach_limit
                          (append_report rep (report_raw next_report) next_query) q) w2 of
                     (Inl e, w3) \<Rightarrow> Some (Inl e, w3)
                   | (Inr enough, w3) \<Rightarrow>
                       paginate svc n q
                         (append_report rep (report_raw next_report) next_query) enough w3))))"

section \<open>CoreQuery: the lazy accessors\<close>

text \<open>\<^verbatim>\<open>self.report\<close>: an \<^verbatim>\<open>AttributeError\<close> when the object has no such attribute.\<close>

definition report_attr :: "query \<Rightarrow> error + report" where
  "report_attr q =
     (case report q of None \<Rightarrow> Inl (AttributeError ''report'') | Some r \<Rightarrow> Inr r)"

text \<open>
  Lines 236 to 237 and 242 to 243: \<^verbatim>\<open>if not hasattr(self, 'report'): self.execute()\<close>.
  The value of \<^verbatim>\<open>execute\<close> is dropped, and \<^verbatim>\<open>execute\<close> assigns no attribute.
\<close>

definition ensure_executed ::
  "'t transport \<Rightarrow> nat \<Rightarrow> query \<Rightarrow> heap \<times> 't \<Rightarrow> ((error + unit) \<times> (heap \<times> 't)) option" where
  "ensure_executed svc n q w =
     (case report q of
        None \<Rightarrow>
          (case execute svc n q w of
             None \<Rightarrow> None
           | Some (Inl e, w') \<Rightarrow> Some (Inl e, w')
           | Some (Inr r, w') \<Rightarrow> Some (Inr (), w'))
      | Some r \<Rightarrow> Some (Inr (), w))"

definition query_len ::
  "'t transport \<Rightarrow> nat \<Rightarrow> query \<Rightarrow> heap \<times> 't \<Rightarrow> ((error + nat) \<times> (heap \<times> 't)) option" where
  "query_len svc n q w =
     (case ensure_executed svc n q w of
        None \<Rightarrow> None
      | Some (Inl e, w') \<Rightarrow> Some (Inl e, w')
      | Some (Inr u, w') \<Rightarrow>
          (case report_attr q of
             Inl e \<Rightarrow> Some (Inl e, w')
           | Inr r \<Rightarrow> Some (Inr (report_len r), w')))"

definition query_iter ::
  "'t transport \<Rightarrow> nat \<Rightarrow> query \<Rightarrow> heap \<times> 't
   \<Rightarrow> ((error + string list list) \<times> (heap \<times> 't)) option" where
  "query_iter svc n q w =
     (case ensure_executed svc n q w of
        None \<Rightarrow> None
      | Some (Inl e, w') \<Rightarrow> Some (Inl e, w')
      | Some (Inr u, w') \<Rightarrow>
          (case report_attr q of
             Inl e \<Rightarrow> Some (Inl e, w')
           | Inr r \<Rightarrow> Some (report_iter r, w')))"

section \<open>Chains of operations and the structure of a query\<close>

text \<open>The chain operations, as data, and the run of a chain from a query.\<close>

datatype chain_op =
    OpSpecify colarg colarg
  | OpRange pyval pyval pyval pyval pyval pyval
  | OpStep pyval
  | OpLimit "pyval list"
  | OpNext pyval
  | OpClone
  | OpSort
  | OpFilter

fun apply_op :: "daterange \<Rightarrow> chain_op \<Rightarrow> query \<Rightarrow> (query, heap) st" where
  "apply_op dr (OpSpecify metrics dimensions) q = specify metrics dimensions q"
| "apply_op dr (OpRange start stop mths dys precision granularity) q =
     range_q dr start stop mths dys precision granularity q"
| "apply_op dr (OpStep maximum) q = step maximum q"
| "apply_op dr (OpLimit rng) q = limit rng q"
| "apply_op dr (OpNext start) q = next_q start q"
| "apply_op dr OpClone q = clone q"
| "apply_op dr OpSort q = sort_q q"
| "apply_op dr OpFilter q = filter_q q"

fun apply_ops :: "daterange \<Rightarrow> chain_op list \<Rightarrow> query \<Rightarrow> (query, heap) st" where
  "apply_ops dr [] q = ret q"
| "apply_ops dr (x # xs) q = bnd (apply_op dr x q) (apply_ops dr xs)"

text \<open>Whether the dictionary at an address has a key.\<close>

definition has_key :: "heap \<Rightarrow> nat \<Rightarrow> string \<Rightarrow> bool" where
  "has_key h a k = (case dict_at h a of Some d \<Rightarrow> map_of d k \<noteq> None | None \<Rightarrow> False)"

text \<open>
  The structure of a dictionary: its items in order, a reference to a list replaced by
  the content of the list. Two queries are structurally equal when the views of their
  \<^verbatim>\<open>raw\<close> and of their \<^verbatim>\<open>meta\<close> are equal.
\<close>

definition deref :: "heap \<Rightarrow> pyval \<Rightarrow> pyval + pyval list" where
  "deref h v =
     (case v of
        RefV a \<Rightarrow> (case list_at h a of Some xs \<Rightarrow> Inr xs | None \<Rightarrow> Inl v)
      | _ \<Rightarrow> Inl v)"

definition view :: "heap \<Rightarrow> nat \<Rightarrow> (string \<times> (pyval + pyval list)) list option" where
  "view h a = map_option (map (\<lambda>(k, v). (k, deref h v))) (dict_at h a)"

section \<open>Scenarios\<close>

definition c_date :: column where
  "c_date = \<lparr>col_name = ''date'', col_id = ''ga:date''\<rparr>"

definition c_sessions :: column where
  "c_sessions = \<lparr>col_name = ''sessions'', col_id = ''ga:sessions''\<rparr>"

definition c_pageviews :: column where
  "c_pageviews = \<lparr>col_name = ''pageviews'', col_id = ''ga:pageviews''\<rparr>"

definition prof :: "column list \<Rightarrow> profile" where
  "prof cat = \<lparr>profile_id = ''12345'', profile_name = ''site'', columns = cat\<rparr>"

text \<open>
  The query \<^verbatim>\<open>CoreQuery(profile, metrics='sessions', dimensions='date')\<close> built in
  an empty store: \<^verbatim>\<open>raw\<close> at address 0, \<^verbatim>\<open>meta\<close> at 1, the metric list at 2
  and the dimension list at 3.
\<close>

definition q0 :: "column list \<Rightarrow> query" where
  "q0 cat = Query (prof cat) 0 1 None"

definition rd0 :: "(string \<times> pyval) list" where
  "rd0 = [(''ids'', StrV ''ga:12345''), (''metrics'', RefV 2), (''dimensions'', RefV 3)]"

definition h0 :: heap where
  "h0 = [DictObj rd0, DictObj [], ListObj [StrV ''ga:sessions''], ListObj [StrV ''ga:date'']]"

definition dr0 :: daterange where
  "dr0 start stop mths dys = Inr (start, stop)"

text \<open>The two pages of the pagination scenario, and a page of a thousand rows.\<close>

definition page1 :: page where
  "page1 = \<lparr>columnHeaders = [''ga:date'', ''ga:sessions''],
            page_rows = [[''20230101'', ''10'']], nextLink = Some ''...''\<rparr>"

definition page2 :: page where
  "page2 = \<lparr>columnHeaders = [''ga:date'', ''ga:sessions''],
            page_rows = [[''20230102'', ''20'']], nextLink = None\<rparr>"

definition page1000 :: page where
  "page1000 = \<lparr>columnHeaders = [''ga:date'', ''ga:sessions''],
               page_rows = replicate 1000 [''20230101'', ''10''], nextLink = Some ''...''\<rparr>"

text \<open>
  Services that keep the log of the requests they got. The page served depends on
  \<^verbatim>\<open>start_index\<close> (the first page when absent or 1).
\<close>

definition start_of :: "(string \<times> pyval) list \<Rightarrow> int option" where
  "start_of req =
     (case map_of req ''start_index'' of
        None \<Rightarrow> Some 1
      | Some (IntV i) \<Rightarrow> Some i
      | Some _ \<Rightarrow> None)"

definition serve :: "(int \<Rightarrow> page option) \<Rightarrow> (string \<times> pyval) list list transport" where
  "serve pages log req =
     (case start_of req of
        None \<Rightarrow> (Inl (TransportError ''bad start_index''), log @ [req])
      | Some i \<Rightarrow>
          (case pages i of
             None \<Rightarrow> (Inl (TransportError ''no such page''), log @ [req])
           | Some pg \<Rightarrow> (Inr pg, log @ [req])))"

definition two_pages :: "int \<Rightarrow> page option" where
  "two_pages i = (if i = 1 then Some page1 else if i = 1001 then Some page2 else None)"

text \<open>Three pages of one row each: 1, 1001 and 2001; only the last one is complete.\<close>

definition three_pages :: "int \<Rightarrow> page option" where
  "three_pages i =
     (if i = 1 \<or> i = 1001 then Some page1 else if i = 2001 then Some page2 else None)"

definition pages_of_two :: "int \<Rightarrow> page option" where
  "pages_of_two i =
     (if i = 1 then Some (page1\<lparr>page_rows := [[''20230101'', ''10''], [''20230102'', ''20'']]\<rparr>)
      else None)"

definition pages_1000 :: "int \<Rightarrow> page option" where
  "pages_1000 i = (if i = 1 then Some page1000 else if i = 1001 then Some page2 else None)"

text \<open>What a test observes of an execution: the rows, completeness, and the log.\<close>

definition start_indexes :: "(string \<times> pyval) list list \<Rightarrow> pyval option list" where
  "start_indexes log = map (\<lambda>req. map_of req ''start_index'') log"

definition fetched ::
  "((error + report) \<times> (heap \<times> (string \<times> pyval) list list)) option
   \<Rightarrow> (nat \<times> pyval option list) option" where
  "fetched res =
     (case res of
        None \<Rightarrow> None
      | Some (Inl e, w) \<Rightarrow> None
      | Some (Inr rep, w) \<Rightarrow> Some (length (rows rep), start_indexes (snd w)))"

definition observe ::
  "((error + report) \<times> (heap \<times> (string \<times> pyval) list list)) option
   \<Rightarrow> ((error + string list list \<times> bool) \<times> pyval option list) option" where
  "observe res =
     (case res of
        None \<Rightarrow> None
      | Some (Inl e, w) \<Rightarrow> Some (Inl e, start_indexes (snd w))
      | Some (Inr rep, w) \<Rightarrow> Some (Inr (rows rep, is_complete rep), start_indexes (snd w)))"

section \<open>Notions used in the proofs\<close>

text \<open>A store grows into another when every key of every dictionary is kept.\<close>

definition grows :: "heap \<Rightarrow> heap \<Rightarrow> bool" where
  "grows h h' = (\<forall>a k. has_key h a k \<longrightarrow> has_key h' a k)"

definition pres :: "('a, heap) st \<Rightarrow> bool" where
  "pres m = (\<forall>h. grows h (snd (m h)))"

text \<open>A computation establishes a property of the store when each normal return has it.\<close>

definition est :: "(heap \<Rightarrow> bool) \<Rightarrow> ('a, heap) st \<Rightarrow> bool" where
  "est P m = (\<forall>h x h'. m h = (Inr x, h') \<longrightarrow> P h')"

text \<open>
  A computation respects the frame \<open>L\<close> when it leaves the objects below address
  \<open>L\<close> as they are, and removes none.
\<close>

definition frame :: "nat \<Rightarrow> ('a, heap) st \<Rightarrow> bool" where
  "frame L m =
     (\<forall>h r h'. L \<le> length h \<longrightarrow> m h = (r, h') \<longrightarrow>
        length h \<le> length h' \<and> take L h' = take L h)"

definition wframe :: "nat \<Rightarrow> heap \<times> 't \<Rightarrow> heap \<times> 't \<Rightarrow> bool" where
  "wframe L w w' = (length (fst w) \<le> length (fst w') \<and> take L (fst w') = take L (fst w))"

text \<open>
  The states of the three-page scenario: the query asks for the page at 1 or at 1001, has
  no page size and no limit, and its lists are those of \<open>h0\<close>.
\<close>

definition rd1 :: "(string \<times> pyval) list" where
  "rd1 = rd0 @ [(''start_index'', IntV 1001)]"

definition paging :: "heap \<Rightarrow> query \<Rightarrow> bool" where
  "paging h q =
     ((dict_at h (raw q) = Some rd0 \<or> dict_at h (raw q) = Some rd1) \<and>
      dict_at h (meta q) = Some [] \<and>
      list_at h 2 = Some [StrV ''ga:sessions''] \<and> list_at h 3 = Some [StrV ''ga:date''])"

section \<open>The monad and the store\<close>



lemma bnd_InrE:
  assumes "bnd m f h = (Inr y, h')"
  obtains x h1 where "m h = (Inr x, h1)" "f x h1 = (Inr y, h')"
  using assms by (auto simp: bnd_def split: prod.splits sum.splits)

lemma dict_at_append_Some: "dict_at h a = Some d \<Longrightarrow> dict_at (h @ ys) a = Some d"
  by (auto simp: dict_at_def nth_append split: if_splits)

lemma list_at_append_Some: "list_at h a = Some d \<Longrightarrow> list_at (h @ ys) a = Some d"
  by (auto simp: list_at_def nth_append split: if_splits)

lemma dict_update_Some:
  "dict_at h a = Some d \<Longrightarrow>
   dict_update a kvs h = (Inr (), h[a := DictObj (fold (\<lambda>(k, v). AList.update k v) kvs d)])"
proof (induction kvs arbitrary: h d)
  case Nil
  then have "a < length h" "h ! a = DictObj d"
    by (auto simp: dict_at_def split: if_splits obj.splits)
  then have "h[a := DictObj d] = h" by (metis list_update_id)
  then show ?case by (simp add: ret_def)
next
  case (Cons kv kvs)
  obtain k v where kv: "kv = (k, v)" by (cases kv)
  have a: "a < length h" using Cons.prems by (auto simp: dict_at_def split: if_splits)
  have d': "dict_at (h[a := DictObj (AList.update k v d)]) a = Some (AList.update k v d)"
    using a by (simp add: dict_at_def)
  show ?case using Cons.prems Cons.IH[OF d'] by (simp add: kv bnd_def dict_setitem_def)
qed

subsection \<open>A clone, exactly\<close>

lemma Query_init_exact:
  "Query_init p (Several []) (Several []) md h =
    (Inr (Query p (length h) (Suc (length h)) None),
     h @ [DictObj [(''ids'', StrV (''ga:'' @ profile_id p)),
                   (''metrics'', RefV (Suc (Suc (length h)))),
                   (''dimensions'', RefV (Suc (Suc (Suc (length h)))))],
          DictObj (fold (\<lambda>(k, v). AList.update k v) md []), ListObj [], ListObj []])"
proof -
  let ?A = "DictObj [(''ids'', StrV (''ga:'' @ profile_id p))]"
  have upd: "dict_update (Suc (length h)) md (h @ [?A, DictObj []]) =
        (Inr (), h @ [?A, DictObj (fold (\<lambda>(k, v). AList.update k v) md [])])"
    using dict_update_Some[of "h @ [?A, DictObj []]" "Suc (length h)" "[]" md]
    by (simp add: dict_at_def nth_append list_update_append)
  show ?thesis
    using upd
    by (simp add: Query_init_def bnd_def new_obj_def specify_body_def
        liftE_def serialize_columns_def dict_setdefault_list_def ret_def get_dict_def
        dict_at_def list_at_def nth_append list_update_append dict_setitem_def list_extend_def)
qed

lemma clone_exact:
  assumes "dict_at h (meta q) = Some md" "dict_at h (raw q) = Some rd"
  shows "clone q h =
    (Inr (Query (profile q) (length h + 4) (Suc (length h)) None),
     h @ [DictObj [(''ids'', StrV (''ga:'' @ profile_id (profile q))),
                   (''metrics'', RefV (Suc (Suc (length h)))),
                   (''dimensions'', RefV (Suc (Suc (Suc (length h)))))],
          DictObj (fold (\<lambda>(k, v). AList.update k v) md []), ListObj [], ListObj [],
          DictObj rd])"
  using assms dict_at_append_Some[OF assms(2)]
  by (simp add: clone_def bnd_def get_dict_def Query_init_exact new_obj_def ret_def)

section \<open>The keys of the raw parameters\<close>

lemma grows_refl: "grows h h"
  by (simp add: grows_def)

lemma grows_trans: "grows h h1 \<Longrightarrow> grows h1 h2 \<Longrightarrow> grows h h2"
  by (simp add: grows_def)

lemma presD: "pres m \<Longrightarrow> m h = (r, h') \<Longrightarrow> has_key h a k \<Longrightarrow> has_key h' a k"
  by (auto simp: pres_def grows_def dest!: spec[where x=h])

lemma pres_ret: "pres (ret x)"
  by (simp add: pres_def ret_def grows_refl)

lemma pres_raise: "pres (raise e)"
  by (simp add: pres_def raise_def grows_refl)

lemma pres_liftE: "pres (liftE r)"
  by (simp add: pres_def liftE_def grows_refl)

lemma pres_bnd:
  assumes m: "pres m" and f: "\<And>x. pres (f x)"
  shows "pres (bnd m f)"
  unfolding pres_def
proof
  fix h
  obtain r h1 where mh: "m h = (r, h1)" by (cases "m h")
  from m have g1: "grows h h1" using mh by (auto simp: pres_def dest!: spec[where x=h])
  show "grows h (snd (bnd m f h))"
  proof (cases r)
    case (Inl e)
    then show ?thesis using mh g1 by (simp add: bnd_def)
  next
    case (Inr x)
    from f[of x] have "grows h1 (snd (f x h1))" by (simp add: pres_def)
    with g1 have "grows h (snd (f x h1))" by (rule grows_trans)
    then show ?thesis using mh Inr by (simp add: bnd_def)
  qed
qed

lemma pres_cond: "pres m \<Longrightarrow> pres n \<Longrightarrow> pres (\<lambda>h. if c h then m h else n h)"
  by (simp add: pres_def)

lemma has_key_append: "has_key h a k \<Longrightarrow> has_key (h @ ys) a k"
  by (auto simp: has_key_def dict_at_def nth_append split: if_splits option.splits)

lemma pres_new_obj: "pres (new_obj ob)"
  by (simp add: pres_def new_obj_def grows_def has_key_append)

lemma pres_get_dict: "pres (get_dict a)"
  by (auto simp: pres_def get_dict_def grows_refl split: option.splits)

lemma has_key_setitem:
  "has_key h b k \<Longrightarrow>
   has_key (h[a := DictObj (AList.update k' v d)]) b k \<or> dict_at h a \<noteq> Some d"
  by (cases "a = b")
     (auto simp: has_key_def dict_at_def update_conv' split: if_splits option.splits obj.splits)

lemma pres_setitem: "pres (dict_setitem a k v)"
  unfolding pres_def grows_def dict_setitem_def
  using has_key_setitem by (fastforce split: option.splits)

lemma pres_getitem: "pres (dict_getitem a k)"
  unfolding dict_getitem_def
  by (auto intro!: pres_bnd pres_get_dict pres_ret pres_raise split: option.splits)

lemma pres_dict_get: "pres (dict_get a k v)"
  unfolding dict_get_def
  by (auto intro!: pres_bnd pres_get_dict pres_ret pres_raise split: option.splits)

lemma pres_dict_update: "pres (dict_update a kvs)"
  by (induction kvs) (auto intro!: pres_bnd pres_setitem pres_ret)

lemma pres_setdefault: "pres (dict_setdefault_list a k)"
  unfolding dict_setdefault_list_def
  by (auto intro!: pres_bnd pres_get_dict pres_ret pres_new_obj pres_setitem split: option.splits)

lemma has_key_list_update:
  "has_key h b k \<Longrightarrow> list_at h a = Some ys \<Longrightarrow> has_key (h[a := ListObj zs]) b k"
  by (cases "a = b")
     (auto simp: has_key_def dict_at_def list_at_def split: if_splits option.splits obj.splits)

lemma pres_list_extend: "pres (list_extend v xs)"
  unfolding pres_def grows_def list_extend_def
  by (auto split: pyval.splits option.splits intro: has_key_list_update)

lemma pres_list_insert0: "pres (list_insert0 v x)"
  unfolding pres_def grows_def list_insert0_def
  by (auto split: pyval.splits option.splits intro: has_key_list_update)

lemmas pres_intros =
  pres_bnd pres_ret pres_raise pres_liftE pres_new_obj pres_get_dict pres_setitem
  pres_getitem pres_dict_get pres_dict_update pres_setdefault pres_list_extend pres_list_insert0

lemma pres_specify_body: "pres (specify_body ms ds q)"
  unfolding specify_body_def by (intro pres_intros)

lemma pres_Query_init: "pres (Query_init p ms ds md)"
  unfolding Query_init_def by (intro pres_intros pres_specify_body)

lemma pres_clone: "pres (clone q)"
  unfolding clone_def by (intro pres_intros pres_Query_init)

lemma pres_range_body: "pres (range_body dr a b c d e f q)"
  unfolding range_body_def
  by (auto intro!: pres_intros pres_cond split: prod.splits)

lemma pres_step_body: "pres (step_body m q)"
  unfolding step_body_def by (intro pres_intros)

lemma pres_limit_body: "pres (limit_body rng q)"
  unfolding limit_body_def by (auto intro!: pres_intros split: prod.splits)

lemma pres_next_body: "pres (next_body s q)"
  unfolding next_body_def by (intro pres_cond pres_intros)

lemma estD: "est P m \<Longrightarrow> m h = (Inr x, h') \<Longrightarrow> P h'"
  by (auto simp: est_def)

lemma est_bnd1:
  assumes "est (\<lambda>h. has_key h a k) m" and "\<And>x. pres (f x)"
  shows "est (\<lambda>h. has_key h a k) (bnd m f)"
  unfolding est_def
proof (intro allI impI)
  fix h y h' assume "bnd m f h = (Inr y, h')"
  then obtain x h1 where 1: "m h = (Inr x, h1)" and 2: "f x h1 = (Inr y, h')"
    by (rule bnd_InrE)
  from estD[OF assms(1) 1] have "has_key h1 a k" .
  with presD[OF assms(2) 2] show "has_key h' a k" .
qed

lemma est_bnd2:
  assumes "\<And>x. est P (f x)"
  shows "est P (bnd m f)"
  unfolding est_def
proof (intro allI impI)
  fix h y h' assume "bnd m f h = (Inr y, h')"
  then obtain x h1 where 1: "m h = (Inr x, h1)" and 2: "f x h1 = (Inr y, h')"
    by (rule bnd_InrE)
  from estD[OF assms 2] show "P h'" .
qed

lemma est_setdefault: "est (\<lambda>h. has_key h a k) (dict_setdefault_list a k)"
  by (auto simp: est_def dict_setdefault_list_def bnd_def new_obj_def get_dict_def ret_def
      dict_setitem_def has_key_def dict_at_def update_conv'
      split: option.splits if_splits obj.splits)

lemma est_specify_metrics: "est (\<lambda>h. has_key h (raw q) ''metrics'') (specify_body ms ds q)"
  unfolding specify_body_def
  by (rule est_bnd2, rule est_bnd2, rule est_bnd1, rule est_setdefault) (intro pres_intros)

lemma est_specify_dimensions:
  "est (\<lambda>h. has_key h (raw q) ''dimensions'') (specify_body ms ds q)"
  unfolding specify_body_def
  by (rule est_bnd2, rule est_bnd2, rule est_bnd2, rule est_bnd2, rule est_bnd1,
      rule est_setdefault) (intro pres_intros)

lemma Query_init_keys:
  assumes "Query_init p ms ds md h = (Inr q, h')"
  shows "has_key h' (raw q) ''ids'' \<and> has_key h' (raw q) ''metrics'' \<and>
         has_key h' (raw q) ''dimensions''"
proof -
  let ?A = "DictObj [(''ids'', StrV (''ga:'' @ profile_id p))]"
  let ?q = "Query p (length h) (Suc (length h)) None"
  from assms obtain h3 u where q: "q = ?q"
    and upd: "dict_update (Suc (length h)) md (h @ [?A, DictObj []]) = (Inr (), h3)"
    and sp: "specify_body ms ds ?q h3 = (Inr u, h')"
    by (auto simp: Query_init_def bnd_def new_obj_def ret_def split: prod.splits sum.splits)
  have "has_key (h @ [?A, DictObj []]) (length h) ''ids''"
    by (simp add: has_key_def dict_at_def nth_append)
  then have "has_key h3 (length h) ''ids''" by (rule presD[OF pres_dict_update upd])
  then have "has_key h' (length h) ''ids''" by (rule presD[OF pres_specify_body sp])
  moreover have "has_key h' (raw ?q) ''metrics''" by (rule estD[OF est_specify_metrics sp])
  moreover have "has_key h' (raw ?q) ''dimensions''"
    by (rule estD[OF est_specify_dimensions sp])
  ultimately show ?thesis by (simp add: q)
qed

lemma clone_keys:
  assumes "clone q h = (Inr c, h')" and "has_key h (raw q) k"
  shows "has_key h' (raw c) k"
proof -
  from assms(1) obtain md nq h2 rd where
    qi: "Query_init (profile q) (Several []) (Several []) md h = (Inr nq, h2)"
    and rd: "dict_at h2 (raw q) = Some rd"
    and c: "raw c = length h2" and h': "h' = h2 @ [DictObj rd]"
    by (auto simp: clone_def bnd_def get_dict_def new_obj_def ret_def
        split: prod.splits sum.splits option.splits)
  from presD[OF pres_Query_init qi assms(2)] have "has_key h2 (raw q) k" .
  with rd have "map_of rd k \<noteq> None" by (simp add: has_key_def)
  then show ?thesis by (simp add: c h' has_key_def dict_at_def)
qed

lemma immutable_keys:
  assumes m: "\<And>c. pres (m c)" and r: "immutable m q h = (Inr c, h')"
    and k: "has_key h (raw q) k"
  shows "has_key h' (raw c) k"
proof -
  from r obtain c' h1 where 1: "clone q h = (Inr c', h1)"
    and 2: "bnd (m c') (\<lambda>_. ret c') h1 = (Inr c, h')"
    unfolding immutable_def by (rule bnd_InrE)
  from 2 obtain u h2 where 3: "m c' h1 = (Inr u, h2)" and 4: "ret c' h2 = (Inr c, h')"
    by (rule bnd_InrE)
  from 4 have "c = c'" "h' = h2" by (simp_all add: ret_def)
  with presD[OF m 3 clone_keys[OF 1 k]] show ?thesis by simp
qed

lemma apply_op_keys:
  assumes "apply_op dr x q h = (Inr c, h')" and "has_key h (raw q) k"
  shows "has_key h' (raw c) k"
proof (cases x)
  case (OpSpecify ms ds)
  with assms show ?thesis
    by (auto simp: specify_def intro: immutable_keys[OF pres_specify_body])
next
  case (OpRange a b c d e f)
  with assms show ?thesis
    by (auto simp: range_q_def intro: immutable_keys[OF pres_range_body])
next
  case (OpStep m)
  with assms show ?thesis
    by (auto simp: step_def intro: immutable_keys[OF pres_step_body])
next
  case (OpLimit rng)
  with assms show ?thesis
    by (auto simp: limit_def intro: immutable_keys[OF pres_limit_body])
next
  case (OpNext s)
  with assms show ?thesis
    by (auto simp: next_q_def intro: immutable_keys[OF pres_next_body])
next
  case OpClone
  with assms show ?thesis by (auto intro: clone_keys)
next
  case OpSort
  with assms show ?thesis
    by (auto simp: sort_q_def intro: immutable_keys[OF pres_ret])
next
  case OpFilter
  with assms show ?thesis
    by (auto simp: filter_q_def intro: immutable_keys[OF pres_ret])
qed

lemma apply_ops_keys:
  "apply_ops dr xs q h = (Inr c, h') \<Longrightarrow> has_key h (raw q) k \<Longrightarrow> has_key h' (raw c) k"
proof (induction xs arbitrary: q h)
  case Nil
  then show ?case by (simp add: ret_def)
next
  case (Cons x xs)
  from Cons.prems(1) obtain q1 h1 where 1: "apply_op dr x q h = (Inr q1, h1)"
    and 2: "apply_ops dr xs q1 h1 = (Inr c, h')"
    by (auto elim: bnd_InrE)
  from Cons.IH[OF 2 apply_op_keys[OF 1 Cons.prems(2)]] show ?case .
qed

lemma scenario_init:
  "Query_init (prof [c_date, c_sessions, c_pageviews])
     (Single (ByName ''sessions'')) (Single (ByName ''date'')) [] [] =
   (Inr (q0 [c_date, c_sessions, c_pageviews]), h0)"
  by code_simp

text \<open>
  C9. A query made by the constructor and then by any sequence of chain operations
  (specify, range, step, limit, next, clone, sort, filter) has the keys \<^verbatim>\<open>ids\<close>,
  \<^verbatim>\<open>metrics\<close> and \<^verbatim>\<open>dimensions\<close> in its raw parameters.
\<close>

theorem raw_keys_invariant:
  assumes "Query_init p metrics dimensions meta_arg hs = (Inr q1, h1)"
    and "apply_ops dr ops q1 h1 = (Inr q, h)"
  shows "has_key h (raw q) ''ids'' \<and> has_key h (raw q) ''metrics'' \<and>
         has_key h (raw q) ''dimensions''"
  using Query_init_keys[OF assms(1)] apply_ops_keys[OF assms(2)] by blast

theorem raw_keys_invariant_witness:
  "Query_init (prof [c_date, c_sessions, c_pageviews])
     (Single (ByName ''sessions'')) (Single (ByName ''date'')) [] [] =
     (Inr (q0 [c_date, c_sessions, c_pageviews]), h0) \<and>
   (case apply_ops dr0
           [OpSpecify (Single (ByName ''pageviews'')) (Several []),
            OpRange (StrV ''2023-01-01'') NoneV (IntV 0) (IntV 0) (IntV 1) (StrV ''day''),
            OpLimit [IntV 10], OpNext NoneV, OpClone, OpSort, OpFilter, OpStep (IntV 5)]
           (q0 [c_date, c_sessions, c_pageviews]) h0 of
      (Inl e, h) \<Rightarrow> False
    | (Inr q, h) \<Rightarrow>
        has_key h (raw q) ''ids'' \<and> has_key h (raw q) ''metrics'' \<and>
        has_key h (raw q) ''dimensions'')"
proof -
  let ?ops = "[OpSpecify (Single (ByName ''pageviews'')) (Several []),
            OpRange (StrV ''2023-01-01'') NoneV (IntV 0) (IntV 0) (IntV 1) (StrV ''day''),
            OpLimit [IntV 10], OpNext NoneV, OpClone, OpSort, OpFilter, OpStep (IntV 5)]"
  let ?run = "apply_ops dr0 ?ops (q0 [c_date, c_sessions, c_pageviews]) h0"
  obtain r h where run: "?run = (r, h)" by (cases ?run)
  have "\<not> isl (fst ?run)" by code_simp
  with run obtain q where r: "r = Inr q" by (cases r) auto
  from raw_keys_invariant[OF scenario_init run[unfolded r]] scenario_init run r
  show ?thesis by simp
qed

section \<open>What an execution leaves untouched\<close>

lemma frameD:
  "frame L m \<Longrightarrow> L \<le> length h \<Longrightarrow> m h = (r, h') \<Longrightarrow>
   length h \<le> length h' \<and> take L h' = take L h"
  by (auto simp: frame_def)

lemma frame_ret: "frame L (ret x)"
  by (simp add: frame_def ret_def)

lemma frame_raise: "frame L (raise e)"
  by (simp add: frame_def raise_def)

lemma frame_liftE: "frame L (liftE r)"
  by (simp add: frame_def liftE_def)

text \<open>Sequencing, when the value of the first computation tells where the second writes.\<close>

lemma frame_bnd_post:
  assumes m: "frame L m"
    and post: "\<And>h x h'. L \<le> length h \<Longrightarrow> m h = (Inr x, h') \<Longrightarrow> Q x"
    and f: "\<And>x. Q x \<Longrightarrow> frame L (f x)"
  shows "frame L (bnd m f)"
  unfolding frame_def
proof (intro allI impI)
  fix h r h' assume L: "L \<le> length h" and b: "bnd m f h = (r, h')"
  obtain r1 h1 where mh: "m h = (r1, h1)" by (cases "m h")
  from frameD[OF m L mh] have 1: "length h \<le> length h1" "take L h1 = take L h" by auto
  show "length h \<le> length h' \<and> take L h' = take L h"
  proof (cases r1)
    case (Inl e)
    with b mh have "h' = h1" by (simp add: bnd_def)
    with 1 show ?thesis by simp
  next
    case (Inr x)
    with b mh have fx: "f x h1 = (r, h')" by (simp add: bnd_def)
    from post[OF L] mh Inr have "Q x" by simp
    from frameD[OF f[OF this] _ fx] L 1 show ?thesis by auto
  qed
qed

lemma frame_bnd: "frame L m \<Longrightarrow> (\<And>x. frame L (f x)) \<Longrightarrow> frame L (bnd m f)"
  by (rule frame_bnd_post[where Q="\<lambda>x. True"]) auto

lemma frame_cond: "frame L m \<Longrightarrow> frame L n \<Longrightarrow> frame L (\<lambda>h. if c h then m h else n h)"
  by (simp add: frame_def)

lemma frame_new_obj: "frame L (new_obj ob)"
  by (auto simp: frame_def new_obj_def)

lemma frame_get_dict: "frame L (get_dict a)"
  by (auto simp: frame_def get_dict_def split: option.splits)

lemma frame_setitem: "L \<le> a \<Longrightarrow> frame L (dict_setitem a k v)"
  by (auto simp: frame_def dict_setitem_def split: option.splits)

lemma frame_getitem: "frame L (dict_getitem a k)"
  unfolding dict_getitem_def
  by (auto intro!: frame_bnd frame_get_dict frame_ret frame_raise split: option.splits)

lemma frame_dict_get: "frame L (dict_get a k v)"
  unfolding dict_get_def
  by (auto intro!: frame_bnd frame_get_dict frame_ret split: option.splits)

lemma frame_join_val: "frame L (join_val v)"
  by (auto simp: frame_def join_val_def split: pyval.splits option.splits sum.splits)

lemma frame_meta_limit: "frame L (meta_limit q)"
  unfolding meta_limit_def
  by (auto intro!: frame_bnd frame_get_dict frame_ret frame_raise
      split: option.splits pyval.splits)

lemma frame_limit_below: "frame L (limit_below_1000 q)"
  unfolding limit_below_1000_def by (intro frame_bnd frame_meta_limit frame_ret)

lemma frame_rows_reach: "frame L (rows_reach_limit rep q)"
  unfolding rows_reach_limit_def by (intro frame_bnd frame_meta_limit frame_ret)

text \<open>The request is built in a new dictionary: every write goes to the copy.\<close>

lemma frame_build_request: "frame L (build_request q)"
  unfolding build_request_def
  apply (rule frame_bnd[OF frame_get_dict])
  apply (rule frame_bnd_post[where Q="\<lambda>c. L \<le> c", OF frame_new_obj])
   apply (simp add: new_obj_def)
  apply (intro frame_bnd frame_getitem frame_join_val frame_setitem frame_get_dict)
   apply assumption+
  done

lemma frame_clone: "frame L (clone q)"
  by (auto simp: frame_def clone_def bnd_def get_dict_def Query_init_exact new_obj_def ret_def
      split: option.splits)

lemma clone_fresh: "clone q h = (Inr c, h') \<Longrightarrow> length h \<le> raw c \<and> length h \<le> meta c"
  by (auto simp: clone_def bnd_def get_dict_def Query_init_exact new_obj_def ret_def
      split: option.splits)

lemma frame_immutable:
  assumes "\<And>c. L \<le> raw c \<Longrightarrow> L \<le> meta c \<Longrightarrow> frame L (m c)"
  shows "frame L (immutable m q)"
  unfolding immutable_def
  apply (rule frame_bnd_post[where Q="\<lambda>c. L \<le> raw c \<and> L \<le> meta c", OF frame_clone])
   apply (drule clone_fresh, simp)
  apply (intro frame_bnd frame_ret assms)
   apply simp_all
  done

lemma frame_next_body: "L \<le> raw c \<Longrightarrow> frame L (next_body s c)"
  unfolding next_body_def
  by (intro frame_cond frame_bnd frame_dict_get frame_liftE frame_setitem)

lemma frame_next_q: "frame L (next_q s q)"
  unfolding next_q_def by (rule frame_immutable) (rule frame_next_body)

lemma frame_step: "frame L (step m q)"
  unfolding step_def step_body_def by (rule frame_immutable) (rule frame_setitem)

lemma frame_limit: "frame L (limit rng q)"
  unfolding limit_def limit_body_def
  by (rule frame_immutable)
     (auto intro!: frame_bnd frame_liftE frame_setitem frame_ret split: prod.splits)

lemma frame_sort: "frame L (sort_q q)"
  unfolding sort_q_def by (rule frame_immutable) (simp add: frame_ret)

lemma frame_filter: "frame L (filter_q q)"
  unfolding filter_q_def by (rule frame_immutable) (simp add: frame_ret)

lemma wframe_refl: "wframe L w w"
  by (simp add: wframe_def)

lemma wframe_trans: "wframe L w w1 \<Longrightarrow> wframe L w1 w2 \<Longrightarrow> wframe L w w2"
  by (simp add: wframe_def)

lemma wframe_len: "wframe L w w' \<Longrightarrow> L \<le> length (fst w) \<Longrightarrow> L \<le> length (fst w')"
  by (simp add: wframe_def)

lemma on_heap_wframe:
  "frame L m \<Longrightarrow> L \<le> length (fst w) \<Longrightarrow> on_heap m w = (r, w') \<Longrightarrow> wframe L w w'"
  by (auto simp: on_heap_def wframe_def split: prod.splits dest: frameD)

lemma call_service_wframe: "call_service svc req w = (r, w') \<Longrightarrow> wframe L w w'"
  by (auto simp: call_service_def wframe_def split: prod.splits)

lemma execute_wframe:
  "(\<forall>q w r w'. L \<le> length (fst w) \<longrightarrow> execute svc n q w = Some (r, w') \<longrightarrow> wframe L w w') \<and>
   (\<forall>q rep e w r w'. L \<le> length (fst w) \<longrightarrow>
      paginate svc n q rep e w = Some (r, w') \<longrightarrow> wframe L w w')"
proof (induction n)
  case 0
  then show ?case by simp
next
  case (Suc n)
  have ex: "wframe L w w'"
    if L: "L \<le> length (fst w)" and e: "execute svc (Suc n) q w = Some (r, w')"
    for q w r w'
  proof -
    obtain r1 w1 where 1: "on_heap (build_request q) w = (r1, w1)"
      by (cases "on_heap (build_request q) w")
    have f1: "wframe L w w1" by (rule on_heap_wframe[OF frame_build_request L 1])
    show ?thesis
    proof (cases r1)
      case (Inl x)
      with e 1 f1 show ?thesis by simp
    next
      case (Inr req)
      obtain r2 w2 where 2: "call_service svc req w1 = (r2, w2)"
        by (cases "call_service svc req w1")
      have f2: "wframe L w w2" using f1 call_service_wframe[OF 2] by (rule wframe_trans)
      show ?thesis
      proof (cases r2)
        case (Inl x)
        with e 1 2 Inr f2 show ?thesis by simp
      next
        case (Inr response)
        obtain r3 w3 where 3: "on_heap (limit_below_1000 q) w2 = (r3, w3)"
          by (cases "on_heap (limit_below_1000 q) w2")
        have f3: "wframe L w w3"
          using f2 on_heap_wframe[OF frame_limit_below wframe_len[OF f2 L] 3]
          by (rule wframe_trans)
        show ?thesis
        proof (cases r3)
          case (Inl x)
          with e 1 2 3 \<open>r1 = Inr req\<close> Inr f3 show ?thesis by simp
        next
          case (Inr is_enough)
          with e 1 2 3 \<open>r1 = Inr req\<close> \<open>r2 = Inr response\<close>
          have "paginate svc n q (Report_init response q) is_enough w3 = Some (r, w')"
            by simp
          with Suc wframe_len[OF f3 L] have "wframe L w3 w'" by blast
          with f3 show ?thesis by (rule wframe_trans)
        qed
      qed
    qed
  qed
  have pg: "wframe L w w'"
    if L: "L \<le> length (fst w)" and e: "paginate svc (Suc n) q rep en w = Some (r, w')"
    for q rep en w r w'
  proof (cases "en \<or> is_complete rep")
    case True
    with e show ?thesis by (auto simp: wframe_refl)
  next
    case False
    obtain r1 w1 where 1: "on_heap (next_q NoneV q) w = (r1, w1)"
      by (cases "on_heap (next_q NoneV q) w")
    have f1: "wframe L w w1" by (rule on_heap_wframe[OF frame_next_q L 1])
    show ?thesis
    proof (cases r1)
      case (Inl x)
      with e 1 f1 False show ?thesis by simp
    next
      case (Inr nq)
      with e 1 False obtain r2 w2 where 2: "execute svc n nq w1 = Some (r2, w2)"
        by (cases "execute svc n nq w1") auto
      with Suc wframe_len[OF f1 L] have "wframe L w1 w2" by blast
      with f1 have f2: "wframe L w w2" by (rule wframe_trans)
      show ?thesis
      proof (cases r2)
        case (Inl x)
        with e 1 2 False \<open>r1 = Inr nq\<close> f2 show ?thesis by simp
      next
        case (Inr nrep)
        let ?rep = "append_report rep (report_raw nrep) nq"
        obtain r3 w3 where 3: "on_heap (rows_reach_limit ?rep q) w2 = (r3, w3)"
          by (cases "on_heap (rows_reach_limit ?rep q) w2")
        have f3: "wframe L w w3"
          using f2 on_heap_wframe[OF frame_rows_reach wframe_len[OF f2 L] 3]
          by (rule wframe_trans)
        show ?thesis
        proof (cases r3)
          case (Inl x)
          with e 1 2 3 False \<open>r1 = Inr nq\<close> Inr f3 show ?thesis by simp
        next
          case (Inr enough)
          with e 1 2 3 False \<open>r1 = Inr nq\<close> \<open>r2 = Inr nrep\<close>
          have "paginate svc n q ?rep enough w3 = Some (r, w')" by simp
          with Suc wframe_len[OF f3 L] have "wframe L w3 w'" by blast
          with f3 show ?thesis by (rule wframe_trans)
        qed
      qed
    qed
  qed
  from ex pg show ?case by blast
qed

text \<open>Every object that was in the store before the call is the same after it.\<close>

lemma execute_extends:
  assumes "execute svc n q (h, t) = Some (r, (h', t'))"
  shows "length h \<le> length h' \<and> take (length h) h' = h"
proof -
  from execute_wframe[of "length h" svc n] assms have "wframe (length h) (h, t) (h', t')"
    by auto
  then show ?thesis by (simp add: wframe_def)
qed

lemma extends_nth:
  assumes "length h \<le> length h' \<and> take (length h) h' = h" and "a < length h"
  shows "h' ! a = h ! a"
proof -
  from assms have "take (length h) h' ! a = h' ! a" by (intro nth_take)
  with assms show ?thesis by simp
qed

lemma extends_dict_at:
  "length h \<le> length h' \<and> take (length h) h' = h \<Longrightarrow> dict_at h a = Some d \<Longrightarrow>
   dict_at h' a = Some d"
  using extends_nth[of h h' a] by (auto simp: dict_at_def split: if_splits)

lemma extends_list_at:
  "length h \<le> length h' \<and> take (length h) h' = h \<Longrightarrow> list_at h a = Some xs \<Longrightarrow>
   list_at h' a = Some xs"
  using extends_nth[of h h' a] by (auto simp: list_at_def split: if_splits)

text \<open>
  C10. A call of \<^verbatim>\<open>execute\<close> that returns, with a report or with an exception,
  leaves the raw parameters of the query as they were: the dictionary has the same
  items, and each list it refers to (the metric and the dimension identifiers) has the
  same content. The joined strings are written to a copy.
\<close>

theorem execute_leaves_raw:
  assumes "execute svc n q (h, t) = Some (r, (h', t'))"
    and "dict_at h (raw q) = Some d"
  shows "dict_at h' (raw q) = Some d \<and>
         (\<forall>k a xs. map_of d k = Some (RefV a) \<and> list_at h a = Some xs
             \<longrightarrow> list_at h' a = Some xs)"
  using extends_dict_at[OF execute_extends[OF assms(1)] assms(2)]
        extends_list_at[OF execute_extends[OF assms(1)]]
  by blast

theorem execute_leaves_raw_witness:
  "dict_at h0 (raw (q0 [c_date, c_sessions])) = Some rd0 \<and>
   (case execute (serve two_pages) 4 (q0 [c_date, c_sessions]) (h0, []) of
      None \<Rightarrow> False
    | Some (r, (h', t')) \<Rightarrow>
        dict_at h' (raw (q0 [c_date, c_sessions])) = Some rd0 \<and>
        list_at h' 2 = Some [StrV ''ga:sessions''] \<and>
        list_at h' 3 = Some [StrV ''ga:date''])"
proof -
  let ?q = "q0 [c_date, c_sessions]"
  let ?run = "execute (serve two_pages) 4 ?q (h0, [])"
  have d: "dict_at h0 (raw ?q) = Some rd0" by code_simp
  have m: "map_of rd0 ''metrics'' = Some (RefV 2)" "map_of rd0 ''dimensions'' = Some (RefV 3)"
    by (simp_all add: rd0_def)
  have l: "list_at h0 2 = Some [StrV ''ga:sessions'']" "list_at h0 3 = Some [StrV ''ga:date'']"
    by (simp_all add: h0_def list_at_def)
  have "?run \<noteq> None" by code_simp
  then obtain r h' t' where run: "?run = Some (r, (h', t'))" by (cases ?run) auto
  from execute_leaves_raw[OF run d] m l d run show ?thesis by simp
qed

section \<open>Pagination\<close>

lemma build_request_paging:
  assumes "paging h q"
  shows "\<exists>req. build_request q h = (Inr req, h @ [DictObj req]) \<and>
           (start_of req = Some 1 \<or> start_of req = Some 1001)"
proof -
  from assms have l2: "list_at (h @ ys) 2 = Some [StrV ''ga:sessions'']"
    and l3: "list_at (h @ ys) 3 = Some [StrV ''ga:date'']" for ys
    by (auto simp: paging_def intro: list_at_append_Some)
  from assms consider "dict_at h (raw q) = Some rd0" | "dict_at h (raw q) = Some rd1"
    by (auto simp: paging_def)
  then show ?thesis
  proof cases
    case 1
    then show ?thesis
      using dict_at_append_Some[OF 1] l2 l3
      by (simp add: build_request_def bnd_def get_dict_def new_obj_def dict_getitem_def ret_def
          join_val_def dict_setitem_def rd0_def start_of_def
          dict_at_def[of "_ @ _" "length _"])
  next
    case 2
    then show ?thesis
      using dict_at_append_Some[OF 2] l2 l3
      by (simp add: build_request_def bnd_def get_dict_def new_obj_def dict_getitem_def ret_def
          join_val_def dict_setitem_def rd0_def rd1_def start_of_def
          dict_at_def[of "_ @ _" "length _"])
  qed
qed

text \<open>
  \<^verbatim>\<open>next()\<close> takes the new start from the page size alone: from the page at 1 and
  from the page at 1001 alike, the next query asks for the page at 1001.
\<close>

lemma next_q_paging:
  assumes "paging h q"
  shows "\<exists>c h'. next_q NoneV q h = (Inr c, h') \<and> paging h' c"
proof -
  from assms have m: "dict_at h (meta q) = Some []" by (simp add: paging_def)
  from assms have l2: "list_at (h @ ys) 2 = Some [StrV ''ga:sessions'']"
    and l3: "list_at (h @ ys) 3 = Some [StrV ''ga:date'']" for ys
    by (auto simp: paging_def intro: list_at_append_Some)
  from assms consider "dict_at h (raw q) = Some rd0" | "dict_at h (raw q) = Some rd1"
    by (auto simp: paging_def)
  then show ?thesis
  proof cases
    case 1
    show ?thesis
      using l2 l3
      by (simp add: next_q_def immutable_def bnd_def clone_exact[OF m 1] next_body_def
          truthy_def dict_get_def get_dict_def dict_at_def[of "_ @ _" "length _ + _"]
          dict_at_def[of "_ @ _" "Suc (length _)"] liftE_def plus_one_def dict_setitem_def
          ret_def rd0_def rd1_def paging_def nth_append list_update_append)
  next
    case 2
    show ?thesis
      using l2 l3
      by (simp add: next_q_def immutable_def bnd_def clone_exact[OF m 2] next_body_def
          truthy_def dict_get_def get_dict_def dict_at_def[of "_ @ _" "length _ + _"]
          dict_at_def[of "_ @ _" "Suc (length _)"] liftE_def plus_one_def dict_setitem_def
          ret_def rd0_def rd1_def paging_def nth_append list_update_append)
  qed
qed

lemma serve_three_pages:
  "start_of req = Some 1 \<or> start_of req = Some 1001 \<Longrightarrow>
   serve three_pages log req = (Inr page1, log @ [req])"
  by (auto simp: serve_def three_pages_def)

lemma paging_append: "paging h q \<Longrightarrow> paging (h @ ys) q"
  by (auto simp: paging_def intro: dict_at_append_Some list_at_append_Some)

lemma limit_below_paging: "paging h q \<Longrightarrow> limit_below_1000 q h = (Inr False, h)"
  by (simp add: paging_def limit_below_1000_def meta_limit_def bnd_def get_dict_def ret_def)

lemma paginate_paging:
  assumes IH: "\<And>q h log. paging h q \<Longrightarrow> execute (serve three_pages) n q (h, log) = None"
    and p: "paging h q"
  shows "paginate (serve three_pages) (Suc n) q (Report_init page1 q) False (h, log) = None"
proof -
  from next_q_paging[OF p] obtain c h' where 1: "next_q NoneV q h = (Inr c, h')"
    and 2: "paging h' c"
    by blast
  have nc: "\<not> is_complete (Report_init page1 q)"
    by (simp add: Report_init_def append_report_def page1_def)
  show ?thesis using nc 1 IH[OF 2] by (simp add: on_heap_def)
qed

lemma execute_paging:
  "paging h q \<Longrightarrow> execute (serve three_pages) n q (h, log) = None"
proof (induction n arbitrary: h q log rule: less_induct)
  case (less n)
  show ?case
  proof (cases n)
    case 0
    then show ?thesis by simp
  next
    case (Suc m)
    from build_request_paging[OF less.prems] obtain req where
      1: "build_request q h = (Inr req, h @ [DictObj req])"
      and 2: "start_of req = Some 1 \<or> start_of req = Some 1001" by blast
    have p': "paging (h @ [DictObj req]) q" using less.prems by (rule paging_append)
    have pg: "paginate (serve three_pages) m q (Report_init page1 q) False
                (h @ [DictObj req], log @ [req]) = None"
    proof (cases m)
      case 0
      then show ?thesis by simp
    next
      case (Suc k)
      have "k < n" using \<open>n = Suc m\<close> Suc by simp
      then show ?thesis unfolding Suc
        by (intro paginate_paging[OF _ p']) (rule less.IH)
    qed
    show ?thesis
      using 1 serve_three_pages[OF 2] limit_below_paging[OF p'] pg
      by (simp add: Suc on_heap_def call_service_def)
  qed
qed

lemma paging_start: "paging h0 (q0 cat)"
  by (simp add: paging_def h0_def q0_def rd0_def dict_at_def list_at_def)

text \<open>
  C2. The service has three pages of one row each, at 1, 1001 and 2001, of which the
  first two carry a continuation link. The execution of the query never returns,
  whatever the fuel: the query for the second page asks for the page at 1001 again.
\<close>

theorem execute_three_pages_diverges:
  "execute (serve three_pages) n (q0 cat) (h0, []) = None"
  by (rule execute_paging[OF paging_start])

text \<open>
  C3. A query limited to 1000 rows gets a first page of 1000 rows with a continuation
  link; the first test compares the limit with the constant 1000 and not the rows with
  the limit, so a second page is requested, and the report has 1001 rows.
\<close>

theorem execute_fetches_past_limit:
  "fetched (case limit [IntV 1000] (q0 cat) h0 of
              (Inl e, h) \<Rightarrow> None
            | (Inr q, h) \<Rightarrow> execute (serve pages_1000) 4 q (h, [])) =
   Some (1001, [Some (IntV 1), Some (IntV 1001)])"
  by code_simp

text \<open>
  The other direction: with a limit of 5 and a page size of 2, the first page of 2 rows
  carries a continuation link, and no second page is requested.
\<close>

lemma execute_stops_below_limit:
  "fetched (case bnd (limit [IntV 5] (q0 cat)) (step (IntV 2)) h0 of
              (Inl e, h) \<Rightarrow> None
            | (Inr q, h) \<Rightarrow> execute (serve pages_of_two) 4 q (h, [])) =
   Some (2, [Some (IntV 1)])"
  by code_simp

text \<open>With a limit of 1, the execution stops after the first page of the scenario.\<close>

lemma execute_limit_one:
  "fetched (case limit [IntV 1] (q0 cat) h0 of
              (Inl e, h) \<Rightarrow> None
            | (Inr q, h) \<Rightarrow> execute (serve two_pages) 4 q (h, [])) =
   Some (1, [Some (IntV 1)])"
  by code_simp

text \<open>
  C6. The two-page scenario, with an account whose catalog lists \<^verbatim>\<open>ga:sessions\<close>
  before \<^verbatim>\<open>ga:date\<close>: the rows are merged in order and the report is complete, and
  the column \<^verbatim>\<open>ga:sessions\<close> of the report holds the dates.
\<close>

theorem report_column_follows_catalog:
  "(case execute (serve two_pages) 4 (q0 [c_sessions, c_date]) (h0, []) of
      Some (Inr rep, w) \<Rightarrow>
        Some (rows rep, is_complete rep, report_getitem rep ''ga:sessions'')
    | _ \<Rightarrow> None) =
   Some ([[''20230101'', ''10''], [''20230102'', ''20'']], True,
         Inr [''20230101'', ''20230102''])"
  by code_simp

text \<open>
  With a catalog that lists the two columns in the order of the response, the column
  \<^verbatim>\<open>ga:sessions\<close> holds the session counts.
\<close>

lemma report_column_in_response_order:
  "(case execute (serve two_pages) 4 (q0 [c_date, c_pageviews, c_sessions]) (h0, []) of
      Some (Inr rep, w) \<Rightarrow>
        Some (rows rep, is_complete rep, report_getitem rep ''ga:sessions'',
              start_indexes (snd w))
    | _ \<Rightarrow> None) =
   Some ([[''20230101'', ''10''], [''20230102'', ''20'']], True, Inr [''10'', ''20''],
         [None, Some (IntV 1001)])"
  by code_simp

section \<open>The lazy accessors\<close>

text \<open>
  C5. \<^verbatim>\<open>len()\<close> of a query that has no report executes the query (two requests in
  the two-page scenario) and then fails with \<^verbatim>\<open>AttributeError\<close>, since nothing
  stores the report; a second call executes the query again (four requests in all) and
  fails the same way.
\<close>

theorem query_len_never_caches:
  "(case query_len (serve two_pages) 4 (q0 cat) (h0, []) of
      None \<Rightarrow> False
    | Some (r1, w1) \<Rightarrow>
        r1 = Inl (AttributeError ''report'') \<and> length (snd w1) = 2 \<and>
        (case query_len (serve two_pages) 4 (q0 cat) w1 of
           None \<Rightarrow> False
         | Some (r2, w2) \<Rightarrow> r2 = Inl (AttributeError ''report'') \<and> length (snd w2) = 4))"
  by code_simp

text \<open>In general, neither accessor of a query without a report returns a value.\<close>

lemma query_len_fails:
  "report q = None \<Longrightarrow> query_len svc n q w = Some (r, w') \<Longrightarrow> isl r"
  by (auto simp: query_len_def ensure_executed_def report_attr_def
      split: option.splits prod.splits sum.splits)

lemma query_iter_fails: "query_iter svc n q w = Some (r, w') \<Longrightarrow> isl r"
  by (auto simp: query_iter_def ensure_executed_def report_attr_def report_iter_def
      split: option.splits prod.splits sum.splits)

section \<open>The chain operations and their receiver\<close>

text \<open>
  C1. \<^verbatim>\<open>q.specify(metrics='pageviews')\<close> changes the metric list of \<open>q\<close> itself:
  the clone's dictionary refers to the same list object.
\<close>

theorem specify_mutates_receiver:
  "view h0 (raw (q0 [c_date, c_sessions, c_pageviews])) =
     Some [(''ids'', Inl (StrV ''ga:12345'')), (''metrics'', Inr [StrV ''ga:sessions'']),
           (''dimensions'', Inr [StrV ''ga:date''])] \<and>
   view (snd (specify (Single (ByName ''pageviews'')) (Several [])
                (q0 [c_date, c_sessions, c_pageviews]) h0))
        (raw (q0 [c_date, c_sessions, c_pageviews])) =
     Some [(''ids'', Inl (StrV ''ga:12345'')),
           (''metrics'', Inr [StrV ''ga:sessions'', StrV ''ga:pageviews'']),
           (''dimensions'', Inr [StrV ''ga:date''])]"
  by code_simp

text \<open>\<^verbatim>\<open>q.range(..., granularity='day')\<close> changes the dimension list of \<open>q\<close>.\<close>

lemma range_mutates_receiver:
  "view (snd (range_q dr0 (StrV ''2023-01-01'') NoneV (IntV 0) (IntV 0) (IntV 1)
                (StrV ''day'') (q0 cat) h0))
        (raw (q0 cat)) =
     Some [(''ids'', Inl (StrV ''ga:12345'')), (''metrics'', Inr [StrV ''ga:sessions'']),
           (''dimensions'', Inr [StrV ''ga:date'', StrV ''ga:date''])]"
  by code_simp

text \<open>
  The operations that write to the dictionaries only (step, limit, next, sort, filter)
  and \<^verbatim>\<open>clone\<close> leave every object of the store as it was.
\<close>

lemma dictionary_operations_frame:
  assumes "x = OpStep m \<or> x = OpLimit rng \<or> x = OpNext s \<or> x = OpClone \<or> x = OpSort
           \<or> x = OpFilter"
    and "apply_op dr x q h = (r, h')"
  shows "length h \<le> length h' \<and> take (length h) h' = h"
proof -
  from assms(1) have "frame (length h) (apply_op dr x q)"
    by (auto simp: frame_step frame_limit frame_next_q frame_clone frame_sort frame_filter)
  from frameD[OF this _ assms(2)] show ?thesis by simp
qed

section \<open>Validation in range\<close>

text \<open>
  C4. \<^verbatim>\<open>range(..., precision=5)\<close> fails with the \<^verbatim>\<open>IndexError\<close> of the tuple
  lookup, before the validation; \<^verbatim>\<open>precision='BOGUS'\<close> fails with the
  \<^verbatim>\<open>ValueError\<close> that lists the three tokens.
\<close>

theorem range_precision_out_of_range:
  "fst (range_q dr0 (StrV ''2023-01-01'') NoneV (IntV 0) (IntV 0) (IntV 5) NoneV
          (q0 cat) h0) =
     Inl (IndexError ''tuple index out of range'') \<and>
   fst (range_q dr0 (StrV ''2023-01-01'') NoneV (IntV 0) (IntV 0) (StrV ''BOGUS'') NoneV
          (q0 cat) h0) =
     Inl (ValueError ''Granularity should be one of: FASTER, DEFAULT, HIGH_PRECISION'')"
  by code_simp

text \<open>
  C7. \<^verbatim>\<open>range(..., granularity='decade')\<close> fails with \<^verbatim>\<open>NameError\<close>: the branch
  that should raise the validation error reads the unbound name \<^verbatim>\<open>options\<close>.
\<close>

theorem range_granularity_unknown:
  "fst (range_q dr0 (StrV ''2023-01-01'') NoneV (IntV 0) (IntV 0) (IntV 1)
          (StrV ''decade'') (q0 cat) h0) =
     Inl (NameError ''options'')"
  by code_simp

section \<open>Report: a missing column\<close>

lemma headers_index_None: "key \<notin> col_id ` set cs \<Longrightarrow> headers_index cs key = None"
  by (induction cs) auto

text \<open>
  C8. Column-indexed access with a name that no header of the report carries fails with
  a \<^verbatim>\<open>ValueError\<close> whose message starts with the missing name.
\<close>

theorem report_getitem_missing:
  "key \<notin> col_id ` set (headers r) \<Longrightarrow>
   report_getitem r key = Inl (ValueError (key @ '' not in column headers''))"
  by (simp add: report_getitem_def headers_index_None)

theorem report_getitem_missing_witness:
  "''ga:bogus'' \<notin> col_id ` set (headers (Report_init page1 (q0 [c_date, c_sessions]))) \<and>
   report_getitem (Report_init page1 (q0 [c_date, c_sessions])) ''ga:bogus'' =
     Inl (ValueError ''ga:bogus not in column headers'')"
proof -
  have absent:
    "''ga:bogus'' \<notin> col_id ` set (headers (Report_init page1 (q0 [c_date, c_sessions])))"
    by (simp add: Report_init_def append_report_def addressable_filter_def q0_def prof_def
        page1_def c_date_def c_sessions_def)
  from report_getitem_missing [OF absent] absent show ?thesis by simp
qed

end
